theory Spec2Isabelle
  imports Main "HOL-Library.Word"
begin

section \<open>JavaScript values\<close>

text \<open>
  The bulk-write engine of \<^verbatim>\<open>src/bulk/common.ts\<close> handles documents whose fields
  are dynamically typed. The values that the code only stores, copies or tests for
  truthiness (operations, identifiers, the selector given to \<^verbatim>\<open>find\<close>) are kept as
  \<open>js_value\<close>; numbers are integers.
\<close>

datatype js_value =
    JSUndefined
  | JSNull
  | JSBoolean bool
  | JSNumber int
  | JSString string
  | JSObject "(string \<times> js_value) list"

text \<open>JavaScript truthiness: what \<^verbatim>\<open>!x\<close> and \<^verbatim>\<open>if (x)\<close> test. Every object is truthy.\<close>

fun truthy :: "js_value \<Rightarrow> bool" where
  "truthy JSUndefined = False"
| "truthy JSNull = False"
| "truthy (JSBoolean b) = b"
| "truthy (JSNumber v) = (v \<noteq> 0)"
| "truthy (JSString s) = (s \<noteq> [])"
| "truthy (JSObject kvs) = True"

text \<open>\<^verbatim>\<open>x != null\<close>: neither \<^verbatim>\<open>undefined\<close> nor \<^verbatim>\<open>null\<close>.\<close>

fun not_nullish :: "js_value \<Rightarrow> bool" where
  "not_nullish JSUndefined = False"
| "not_nullish JSNull = False"
| "not_nullish v = True"

text \<open>
  An array read \<^verbatim>\<open>xs[i]\<close>: out of range it yields \<^verbatim>\<open>undefined\<close>, here \<open>None\<close>.
\<close>

definition js_nth :: "'a list \<Rightarrow> int \<Rightarrow> 'a option" where
  "js_nth xs i = (if 0 \<le> i \<and> i < int (length xs) then Some (xs ! nat i) else None)"

text \<open>A numeric field that may be missing is truthy when it is present and not zero.\<close>

definition truthy_number :: "int option \<Rightarrow> bool" where
  "truthy_number v = (case v of None \<Rightarrow> False | Some k \<Rightarrow> k \<noteq> 0)"

section \<open>Operation times\<close>

text \<open>
  \<^verbatim>\<open>Long\<close> and \<^verbatim>\<open>Timestamp\<close> come from the bson library. A \<^verbatim>\<open>Long\<close> is 64 bits with
  a flag that says whether they are read unsigned; a \<^verbatim>\<open>Timestamp\<close> is an unsigned
  \<^verbatim>\<open>Long\<close>. \<^verbatim>\<open>Long.fromNumber\<close> gives a signed \<^verbatim>\<open>Long\<close> and saturates at the ends of
  the signed range.
\<close>

datatype bson_long = BsonLong (is_unsigned: bool) (long_bits: "64 word")

definition Long_fromNumber :: "int \<Rightarrow> bson_long" where
  "Long_fromNumber v =
     (if v \<le> - (2 ^ 63) then BsonLong False (word_of_int (- (2 ^ 63)))
      else if 2 ^ 63 \<le> v + 1 then BsonLong False (word_of_int (2 ^ 63 - 1))
      else BsonLong False (word_of_int v))"

text \<open>\<^verbatim>\<open>isNegative\<close>: \<^verbatim>\<open>!this.unsigned && this.high < 0\<close>\<close>

definition Long_isNegative :: "bson_long \<Rightarrow> bool" where
  "Long_isNegative a = (\<not> is_unsigned a \<and> bit (long_bits a) 63)"

text \<open>
  \<^verbatim>\<open>equals\<close>: two values of different signedness that both have the top bit set
  differ; otherwise the bits decide.
\<close>

definition Long_equals :: "bson_long \<Rightarrow> bson_long \<Rightarrow> bool" where
  "Long_equals a b =
     (if is_unsigned a \<noteq> is_unsigned b \<and> bit (long_bits a) 63 \<and> bit (long_bits b) 63
      then False
      else long_bits a = long_bits b)"

text \<open>
  \<^verbatim>\<open>compare\<close>, from the side of the receiver \<open>a\<close>: equal values give 0; a negative
  value is below one that is not; then a signed receiver looks at the sign of the
  wrapped difference \<^verbatim>\<open>this.sub(other)\<close>, an unsigned one compares the bits as
  unsigned (high half first, then low half).
\<close>

definition Long_compare :: "bson_long \<Rightarrow> bson_long \<Rightarrow> int" where
  "Long_compare a b =
     (if Long_equals a b then 0
      else if Long_isNegative a \<and> \<not> Long_isNegative b then - 1
      else if \<not> Long_isNegative a \<and> Long_isNegative b then 1
      else if \<not> is_unsigned a then (if bit (long_bits a - long_bits b) 63 then - 1 else 1)
      else (if long_bits a < long_bits b then - 1 else 1))"

definition Long_greaterThan :: "bson_long \<Rightarrow> bson_long \<Rightarrow> bool" where
  "Long_greaterThan a b = (0 < Long_compare a b)"

text \<open>
  A component of a decomposed operation time is a number or a \<^verbatim>\<open>Long\<close> of either
  signedness (the server's \<^verbatim>\<open>ts\<close> is a \<^verbatim>\<open>Timestamp\<close>, an unsigned one).
\<close>

datatype long_or_number = Number int | Long bson_long

text \<open>\<^verbatim>\<open>typeof x === 'number' ? Long.fromNumber(x) : x\<close>\<close>

fun toLong :: "long_or_number \<Rightarrow> bson_long" where
  "toLong (Number v) = Long_fromNumber v"
| "toLong (Long a) = a"

text \<open>
  The marker of a response: a raw \<^verbatim>\<open>Timestamp\<close> (\<^verbatim>\<open>_bsontype === 'Timestamp'\<close>) or a
  document \<^verbatim>\<open>{ts, t}\<close>.
\<close>

datatype op_time = Timestamp "64 word" | OpTime long_or_number long_or_number

text \<open>
  \<^verbatim>\<open>opTime.greaterThan(bulkResult.opTime)\<close> first turns its argument into a \<^verbatim>\<open>Long\<close>
  (\<^verbatim>\<open>Long.fromValue\<close>). A stored \<^verbatim>\<open>Timestamp\<close> is one already. A stored \<^verbatim>\<open>{ts, t}\<close>
  document has none of the fields \<^verbatim>\<open>low\<close>, \<^verbatim>\<open>high\<close>, \<^verbatim>\<open>unsigned\<close> that
  \<^verbatim>\<open>Long.fromBits\<close> reads, and becomes the signed zero.
\<close>

fun Long_fromValue :: "op_time \<Rightarrow> bson_long" where
  "Long_fromValue (Timestamp w) = BsonLong True w"
| "Long_fromValue (OpTime ts t) = BsonLong False 0"

section \<open>Server responses\<close>

record upserted_entry =
  u_index :: int
  u_id :: js_value

text \<open>\<^verbatim>\<open>result.upserted\<close> is an array of entries, or one value, or missing.\<close>

datatype upserted_field = UpsertedArray "upserted_entry list" | UpsertedValue js_value

record server_write_error =
  we_index :: int
  we_code :: int
  we_errmsg :: "string option"

record write_concern_error_data =
  wc_code :: int
  wc_errmsg :: string
  wc_errInfo :: "js_value option"
  wc_result :: "int option"

text \<open>
  The fields of a response (or of an error object) that the engine reads. \<open>None\<close> is a
  missing field; \<open>r_nModified\<close> is \<open>Some\<close> exactly when \<^verbatim>\<open>typeof nModified === 'number'\<close>,
  \<open>r_writeErrors\<close> exactly when \<^verbatim>\<open>Array.isArray(result.writeErrors)\<close>.
\<close>

record response =
  r_ok :: "int option"
  r_code :: "int option"
  r_message :: "string option"
  r_opTime :: "op_time option"
  r_lastOp :: "op_time option"
  r_n :: "int option"
  r_nModified :: "int option"
  r_upserted :: upserted_field
  r_writeErrors :: "server_write_error list option"
  r_writeConcernError :: "write_concern_error_data option"

text \<open>A document may carry a nested \<^verbatim>\<open>result\<close> document.\<close>

datatype document = Document (d_fields: response) (d_result: "document option")

definition no_fields :: response where
  "no_fields = \<lparr> r_ok = None, r_code = None, r_message = None, r_opTime = None,
     r_lastOp = None, r_n = None, r_nModified = None,
     r_upserted = UpsertedValue JSUndefined, r_writeErrors = None,
     r_writeConcernError = None \<rparr>"

section \<open>Batches and the cumulative result\<close>

datatype BatchType = INSERT | UPDATE | DELETE

record batch =
  originalZeroIndex :: int
  currentIndex :: int
  originalIndexes :: "int list"
  batchType :: BatchType
  operations :: "js_value list"
  batch_size :: int
  sizeBytes :: int

definition isInsertBatch :: "batch \<Rightarrow> bool" where
  "isInsertBatch b = (batchType b = INSERT)"

definition isUpdateBatch :: "batch \<Rightarrow> bool" where
  "isUpdateBatch b = (batchType b = UPDATE)"

definition isDeleteBatch :: "batch \<Rightarrow> bool" where
  "isDeleteBatch b = (batchType b = DELETE)"

text \<open>
  \<^verbatim>\<open>BulkWriteOperationError\<close>, as \<^verbatim>\<open>WriteError\<close> wraps it. \<open>index\<close> and \<open>op\<close> are read
  from arrays and may be \<^verbatim>\<open>undefined\<close>.
\<close>

record write_error =
  index :: "int option"
  code :: int
  errmsg :: "string option"
  op :: "js_value option"

datatype write_concern_error = WriteConcernError write_concern_error_data

record upserted_doc =
  up_index :: int
  up_id :: js_value

record bulk_result =
  ok :: int
  writeErrors :: "write_error list"
  writeConcernErrors :: "write_concern_error list"
  insertedIds :: "upserted_doc list"
  nInserted :: int
  nUpserted :: int
  nMatched :: int
  nModified :: int
  nRemoved :: int
  upserted :: "upserted_doc list"
  opTime :: "op_time option"

text \<open>The result a new bulk operation starts from (the constructor of \<^verbatim>\<open>BulkOperationBase\<close>).\<close>

definition initial_bulkResult :: bulk_result where
  "initial_bulkResult = \<lparr> ok = 1, writeErrors = [], writeConcernErrors = [],
     insertedIds = [], nInserted = 0, nUpserted = 0, nMatched = 0, nModified = 0,
     nRemoved = 0, upserted = [], opTime = None \<rparr>"

section \<open>The result merger\<close>

text \<open>
  What can be thrown while a reply is handled: a \<open>TypeError\<close>, for a property read on
  \<^verbatim>\<open>undefined\<close>. In \<^verbatim>\<open>mergeBatchResults\<close> that happens when a \<^verbatim>\<open>{ts, t}\<close> document
  arrives while the stored marker is a raw \<^verbatim>\<open>Timestamp\<close>: the stored marker has no
  \<^verbatim>\<open>ts\<close>, and \<^verbatim>\<open>greaterThan(undefined)\<close> reads a field of \<^verbatim>\<open>undefined\<close>. Nothing has
  been written to the cumulative result by then.
\<close>

datatype thrown_error = TypeError

text \<open>
  The first lines of \<^verbatim>\<open>mergeBatchResults\<close>: the error object replaces the result; a
  nested \<^verbatim>\<open>result.result\<close> replaces its parent.
\<close>

definition effective_result :: "document option \<Rightarrow> document option \<Rightarrow> response option" where
  "effective_result err res =
     (case err of
        Some e \<Rightarrow> Some (d_fields e)
      | None \<Rightarrow>
          (case res of
             None \<Rightarrow> None
           | Some d \<Rightarrow>
               (case d_result d of
                  Some inner \<Rightarrow> Some (d_fields inner)
                | None \<Rightarrow> Some (d_fields d))))"

text \<open>\<^verbatim>\<open>result.code || 0\<close>\<close>

definition code_or_zero :: "int option \<Rightarrow> int" where
  "code_or_zero c = (if truthy_number c then the c else 0)"

text \<open>The write error recorded for a top-level command failure.\<close>

definition topLevelWriteError :: "batch \<Rightarrow> response \<Rightarrow> write_error" where
  "topLevelWriteError b r =
     \<lparr> index = Some 0, code = code_or_zero (r_code r), errmsg = r_message r,
       op = js_nth (operations b) 0 \<rparr>"

text \<open>``Deal with opTime if available'': the new value of \<^verbatim>\<open>bulkResult.opTime\<close>.\<close>

definition mergeOpTime :: "op_time option \<Rightarrow> response \<Rightarrow> thrown_error + op_time option" where
  "mergeOpTime cur r =
     (if r_opTime r \<noteq> None \<or> r_lastOp r \<noteq> None then
        (case (case r_lastOp r of Some l \<Rightarrow> Some l | None \<Rightarrow> r_opTime r) of
           None \<Rightarrow> Inr cur
         | Some (Timestamp v) \<Rightarrow>
             (case cur of
                None \<Rightarrow> Inr (Some (Timestamp v))
              | Some c \<Rightarrow>
                  (if Long_greaterThan (BsonLong True v) (Long_fromValue c)
                   then Inr (Some (Timestamp v)) else Inr cur))
         | Some (OpTime ts1 t1) \<Rightarrow>
             (case cur of
                None \<Rightarrow> Inr (Some (OpTime ts1 t1))
              | Some (Timestamp w) \<Rightarrow> Inl TypeError
              | Some (OpTime ts0 t0) \<Rightarrow>
                  (let lastOpTS = toLong ts0; lastOpT = toLong t0;
                       opTimeTS = toLong ts1; opTimeT = toLong t1
                   in if Long_greaterThan opTimeTS lastOpTS then Inr (Some (OpTime ts1 t1))
                      else if Long_equals opTimeTS lastOpTS then
                        (if Long_greaterThan opTimeT lastOpT then Inr (Some (OpTime ts1 t1))
                         else Inr cur)
                      else Inr cur)))
      else Inr cur)"

text \<open>The two count blocks for insert and delete batches.\<close>

definition mergeInserted :: "batch \<Rightarrow> response \<Rightarrow> bulk_result \<Rightarrow> bulk_result" where
  "mergeInserted b r br =
     (if isInsertBatch b \<and> truthy_number (r_n r)
      then br\<lparr>nInserted := nInserted br + the (r_n r)\<rparr> else br)"

definition mergeRemoved :: "batch \<Rightarrow> response \<Rightarrow> bulk_result \<Rightarrow> bulk_result" where
  "mergeRemoved b r br =
     (if isDeleteBatch b \<and> truthy_number (r_n r)
      then br\<lparr>nRemoved := nRemoved br + the (r_n r)\<rparr> else br)"

text \<open>The local \<^verbatim>\<open>nUpserted\<close> and the entries pushed onto \<^verbatim>\<open>bulkResult.upserted\<close>.\<close>

definition upsertedCount :: "response \<Rightarrow> int" where
  "upsertedCount r =
     (case r_upserted r of
        UpsertedArray es \<Rightarrow> int (length es)
      | UpsertedValue v \<Rightarrow> (if truthy v then 1 else 0))"

definition mergeUpserted :: "batch \<Rightarrow> response \<Rightarrow> bulk_result \<Rightarrow> bulk_result" where
  "mergeUpserted b r br =
     (case r_upserted r of
        UpsertedArray es \<Rightarrow>
          br\<lparr>upserted := upserted br @
               map (\<lambda>e. \<lparr> up_index = u_index e + originalZeroIndex b, up_id = u_id e \<rparr>) es\<rparr>
      | UpsertedValue v \<Rightarrow>
          (if truthy v
           then br\<lparr>upserted := upserted br @ [\<lparr> up_index = originalZeroIndex b, up_id = v \<rparr>]\<rparr>
           else br))"

text \<open>``If we have an update Batch type''.\<close>

definition mergeUpdated :: "batch \<Rightarrow> response \<Rightarrow> bulk_result \<Rightarrow> bulk_result" where
  "mergeUpdated b r br =
     (if isUpdateBatch b \<and> truthy_number (r_n r) then
        (let br1 = br\<lparr>nUpserted := nUpserted br + upsertedCount r\<rparr>;
             br2 = br1\<lparr>nMatched := nMatched br1 + (the (r_n r) - upsertedCount r)\<rparr>
         in (case r_nModified r of
               Some m \<Rightarrow> br2\<lparr>nModified := nModified br2 + m\<rparr>
             | None \<Rightarrow> br2\<lparr>nModified := 0\<rparr>))
      else br)"

text \<open>The embedded per-operation write errors, remapped through the batch.\<close>

definition remapWriteError :: "batch \<Rightarrow> server_write_error \<Rightarrow> write_error" where
  "remapWriteError b e =
     \<lparr> index = js_nth (originalIndexes b) (we_index e), code = we_code e,
       errmsg = we_errmsg e, op = js_nth (operations b) (we_index e) \<rparr>"

definition mergeWriteErrors :: "batch \<Rightarrow> response \<Rightarrow> bulk_result \<Rightarrow> bulk_result" where
  "mergeWriteErrors b r br =
     (case r_writeErrors r of
        Some es \<Rightarrow> br\<lparr>writeErrors := writeErrors br @ map (remapWriteError b) es\<rparr>
      | None \<Rightarrow> br)"

definition mergeWriteConcernError :: "response \<Rightarrow> bulk_result \<Rightarrow> bulk_result" where
  "mergeWriteConcernError r br =
     (case r_writeConcernError r of
        Some w \<Rightarrow> br\<lparr>writeConcernErrors := writeConcernErrors br @ [WriteConcernError w]\<rparr>
      | None \<Rightarrow> br)"

text \<open>
  \<^verbatim>\<open>mergeBatchResults(batch, bulkResult, err, result)\<close>. The function mutates
  \<^verbatim>\<open>bulkResult\<close> in place; the model returns the value of the call (every
  \<^verbatim>\<open>return\<close> of the source is a bare \<^verbatim>\<open>return;\<close>, and so is falling off the end)
  together with the new \<^verbatim>\<open>bulkResult\<close>.
\<close>

definition mergeBatchResults ::
  "batch \<Rightarrow> bulk_result \<Rightarrow> document option \<Rightarrow> document option
     \<Rightarrow> thrown_error + (js_value \<times> bulk_result)" where
  "mergeBatchResults b br err res =
     (case effective_result err res of
        None \<Rightarrow> Inr (JSUndefined, br)
      | Some r \<Rightarrow>
          (if r_ok r = Some 0 \<and> ok br = 1 then
             Inr (JSUndefined, br\<lparr>ok := 0, writeErrors := writeErrors br @ [topLevelWriteError b r]\<rparr>)
           else if r_ok r = Some 0 \<and> ok br = 0 then Inr (JSUndefined, br)
           else
             (case mergeOpTime (opTime br) r of
                Inl e \<Rightarrow> Inl e
              | Inr ot \<Rightarrow>
                  Inr (JSUndefined,
                    mergeWriteConcernError r
                      (mergeWriteErrors b r
                        (mergeUpdated b r
                          (mergeUpserted b r
                            (mergeRemoved b r
                              (mergeInserted b r (br\<lparr>opTime := ot\<rparr>))))))))))"

section \<open>The bulk operation\<close>

text \<open>The pending descriptor \<^verbatim>\<open>s.currentOp\<close> that \<^verbatim>\<open>find\<close> and the builder share.\<close>

record current_op =
  selector :: "js_value option"
  upsert :: "bool option"
  collation :: "js_value option"
  arrayFilters :: "js_value option"

text \<open>
  \<^verbatim>\<open>BulkOperationBase\<close> with the fields of its private state \<^verbatim>\<open>s\<close> that \<^verbatim>\<open>find\<close>,
  \<^verbatim>\<open>execute\<close> and \<^verbatim>\<open>executeCommands\<close> read or write. How operations are split into
  batches (\<^verbatim>\<open>addToOperationsList\<close>) is abstract in this class; the batches are taken
  as they stand in the state.
\<close>

record bulk_operation =
  isOrdered :: bool
  bulkResult :: bulk_result
  currentBatch :: "batch option"
  currentInsertBatch :: "batch option"
  currentUpdateBatch :: "batch option"
  currentRemoveBatch :: "batch option"
  batches :: "batch list"
  currentOp :: "current_op option"
  executed :: bool

definition new_BulkOperationBase :: "bool \<Rightarrow> bulk_operation" where
  "new_BulkOperationBase ord =
     \<lparr> isOrdered = ord, bulkResult = initial_bulkResult, currentBatch = None,
       currentInsertBatch = None, currentUpdateBatch = None, currentRemoveBatch = None,
       batches = [], currentOp = None, executed = False \<rparr>"

datatype early_error = MongoInvalidArgumentError string | MongoBatchReExecutionError

text \<open>The builder returned by \<^verbatim>\<open>find\<close> holds the bulk operation it was made for.\<close>

datatype find_operators = FindOperators (bulkOperation: bulk_operation)

text \<open>
  \<^verbatim>\<open>BulkOperationBase.find(selector)\<close>. \<open>Inl\<close> is the exception, thrown before the state
  is touched.
\<close>

definition find_bulk :: "bulk_operation \<Rightarrow> js_value \<Rightarrow> early_error + find_operators" where
  "find_bulk bo sel =
     (if \<not> truthy sel
      then Inl (MongoInvalidArgumentError ''Bulk find operation must specify a selector'')
      else Inr (FindOperators
             (bo\<lparr>currentOp := Some \<lparr> selector = Some sel, upsert = None, collation = None,
                                      arrayFilters = None \<rparr>\<rparr>)))"

section \<open>The batch executor\<close>

text \<open>
  An error handed to the result handler: whether it is a \<^verbatim>\<open>MongoWriteConcernError\<close>,
  and its properties. \<^verbatim>\<open>'message' in err\<close> is read as the message being present.
\<close>

datatype any_error = AnyError (isMongoWriteConcernError: bool) (e_props: document)

definition has_message :: "any_error \<Rightarrow> bool" where
  "has_message e = (r_message (d_fields (e_props e)) \<noteq> None)"

text \<open>What a \<^verbatim>\<open>MongoBulkWriteError\<close> is constructed from, and the result it carries.\<close>

datatype bulk_write_error_cause =
    FromError any_error
  | FromMessageCode "string option" "int option" "write_error list"
  | FromWriteConcernError write_concern_error

datatype mongo_bulk_write_error = MongoBulkWriteError bulk_write_error_cause bulk_result

text \<open>
  The ways a reply ends: the callback is called with an error, with a result or with
  nothing, or the handler itself throws.
\<close>

datatype callback_args =
    CallbackError mongo_bulk_write_error
  | CallbackResult bulk_result
  | CallbackNothing

datatype exec_outcome = Called callback_args | Threw thrown_error

text \<open>\<^verbatim>\<open>MONGODB_ERROR_CODES.WriteConcernFailed\<close>\<close>

definition WriteConcernFailed :: int where
  "WriteConcernFailed = 64"

fun errmsg_of :: "write_concern_error \<Rightarrow> string" where
  "errmsg_of (WriteConcernError d) = wc_errmsg d"

text \<open>\<^verbatim>\<open>BulkWriteResult.getWriteConcernError\<close>\<close>

definition getWriteConcernError :: "bulk_result \<Rightarrow> write_concern_error option" where
  "getWriteConcernError br =
     (case writeConcernErrors br of
        [] \<Rightarrow> None
      | [e] \<Rightarrow> Some e
      | e # es \<Rightarrow>
          Some (WriteConcernError
            \<lparr> wc_code = WriteConcernFailed,
              wc_errmsg = errmsg_of e @ '' and '' @ concat (map errmsg_of es),
              wc_errInfo = None, wc_result = None \<rparr>))"

text \<open>
  \<^verbatim>\<open>BulkOperationBase.handleWriteError\<close>: \<open>Some\<close> is the bulk write error it hands to
  the callback before returning \<^verbatim>\<open>true\<close>, \<open>None\<close> is falling through.
\<close>

definition handleWriteError :: "bulk_result \<Rightarrow> mongo_bulk_write_error option" where
  "handleWriteError br =
     (case writeErrors br of
        e # es \<Rightarrow>
          (let msg = (case errmsg e of
                        Some m \<Rightarrow> (if m \<noteq> [] then m else ''write operation failed'')
                      | None \<Rightarrow> ''write operation failed'')
           in Some (MongoBulkWriteError
                (FromMessageCode (Some msg) (Some (code e)) (writeErrors br)) br))
      | [] \<Rightarrow>
          (case getWriteConcernError br of
             Some w \<Rightarrow> Some (MongoBulkWriteError (FromWriteConcernError w) br)
           | None \<Rightarrow> None))"

text \<open>
  The result handler calls \<^verbatim>\<open>bulkOperation.handleWriteError(callback, writeResult)\<close>, a
  method of the instance. \<^verbatim>\<open>BulkOperationBase\<close> is abstract and its subclasses, which
  may override the method, are in other files; so the method of the instance at hand is
  a parameter. It sees the state of the instance (the batches still queued, the
  cumulative result) and either calls back with a bulk write error and returns
  \<^verbatim>\<open>true\<close>, or returns a falsy value.
\<close>

type_synonym write_error_handler = "batch list \<Rightarrow> bulk_result \<Rightarrow> mongo_bulk_write_error option"

text \<open>The method of an instance that does not override it.\<close>

definition base_handleWriteError :: write_error_handler where
  "base_handleWriteError queued br = handleWriteError br"

text \<open>What handling one reply leads to: the run ends, or the next batch is sent.\<close>

datatype handler_step = Finished exec_outcome bulk_result | NextCommand bulk_result

text \<open>
  \<^verbatim>\<open>handleMongoWriteConcernError\<close>: merge \<^verbatim>\<open>err.result\<close>, then call back with the error.
  \<^verbatim>\<open>err.result?.writeConcernError.errmsg\<close> throws when the result has no
  \<^verbatim>\<open>writeConcernError\<close>.
\<close>

definition handleMongoWriteConcernError :: "batch \<Rightarrow> bulk_result \<Rightarrow> any_error \<Rightarrow> handler_step" where
  "handleMongoWriteConcernError b br err =
     (case mergeBatchResults b br None (d_result (e_props err)) of
        Inl x \<Rightarrow> Finished (Threw x) br
      | Inr (mergeResult, br') \<Rightarrow>
          (case d_result (e_props err) of
             None \<Rightarrow>
               Finished (Called (CallbackError
                 (MongoBulkWriteError (FromMessageCode None None []) br'))) br'
           | Some d \<Rightarrow>
               (case r_writeConcernError (d_fields d) of
                  None \<Rightarrow> Finished (Threw TypeError) br'
                | Some w \<Rightarrow>
                    Finished (Called (CallbackError
                      (MongoBulkWriteError
                        (FromMessageCode (Some (wc_errmsg w)) (wc_result w) []) br'))) br')))"

text \<open>
  The \<^verbatim>\<open>resultHandler\<close> closure of \<^verbatim>\<open>executeCommands\<close>, for the batch just sent;
  \<open>queued\<close> is \<^verbatim>\<open>s.batches\<close> after the shift.
\<close>

definition resultHandler ::
  "write_error_handler \<Rightarrow> batch list \<Rightarrow> batch \<Rightarrow> bulk_result \<Rightarrow> any_error option
     \<Rightarrow> document option \<Rightarrow> handler_step" where
  "resultHandler H queued b br err res =
     (case err of
        Some e \<Rightarrow>
          (if has_message e \<and> \<not> isMongoWriteConcernError e then
             Finished (Called (CallbackError (MongoBulkWriteError (FromError e) br))) br
           else if isMongoWriteConcernError e then handleMongoWriteConcernError b br e
           else
             (case mergeBatchResults b br (Some (e_props e)) res of
                Inl x \<Rightarrow> Finished (Threw x) br
              | Inr (mergeResult, br') \<Rightarrow>
                  (if not_nullish mergeResult then Finished (Called (CallbackResult br')) br'
                   else (case H queued br' of
                           Some e' \<Rightarrow> Finished (Called (CallbackError e')) br'
                         | None \<Rightarrow> NextCommand br'))))
      | None \<Rightarrow>
          (case mergeBatchResults b br None res of
             Inl x \<Rightarrow> Finished (Threw x) br
           | Inr (mergeResult, br') \<Rightarrow>
               (if not_nullish mergeResult then Finished (Called (CallbackResult br')) br'
                else (case H queued br' of
                        Some e' \<Rightarrow> Finished (Called (CallbackError e')) br'
                      | None \<Rightarrow> NextCommand br'))))"

text \<open>
  The transport (\<^verbatim>\<open>executeOperation\<close> with the insert, update or delete operation) is
  outside the engine. Given the mode, the batches sent before in this run and the batch
  sent now, it throws at once or calls the result handler with an error, a result or
  neither. Of the options only \<^verbatim>\<open>ordered\<close> is passed on here.
\<close>

datatype reply = Throws document | Calls "any_error option" "document option"

type_synonym transport = "bool \<Rightarrow> batch list \<Rightarrow> batch \<Rightarrow> reply"

text \<open>\<^verbatim>\<open>err.ok = 0\<close> in the \<^verbatim>\<open>catch\<close> block.\<close>

fun force_top_level_error :: "document \<Rightarrow> document" where
  "force_top_level_error (Document f r) = Document (f\<lparr>r_ok := Some 0\<rparr>) r"

record exec_result =
  outcome :: exec_outcome
  finalResult :: bulk_result
  dispatched :: "batch list"
  remaining :: "batch list"

text \<open>
  \<^verbatim>\<open>executeCommands\<close>: the queue \<^verbatim>\<open>s.batches\<close> is shifted one batch at a time.
  \<open>hist\<close> lists the batches sent so far; the result records the callback call, the
  cumulative result, every batch sent and the batches left in the queue.
\<close>

fun executeCommands ::
  "write_error_handler \<Rightarrow> transport \<Rightarrow> bool \<Rightarrow> batch list \<Rightarrow> bulk_result \<Rightarrow> batch list
     \<Rightarrow> exec_result" where
  "executeCommands H T ord hist br [] =
     \<lparr> outcome = Called (CallbackResult br), finalResult = br, dispatched = hist,
       remaining = [] \<rparr>"
| "executeCommands H T ord hist br (b # rest) =
     (case T ord hist b of
        Throws e \<Rightarrow>
          (case mergeBatchResults b br (Some (force_top_level_error e)) None of
             Inl x \<Rightarrow>
               \<lparr> outcome = Threw x, finalResult = br, dispatched = hist @ [b],
                 remaining = rest \<rparr>
           | Inr (mergeResult, br') \<Rightarrow>
               \<lparr> outcome = Called CallbackNothing, finalResult = br',
                 dispatched = hist @ [b], remaining = rest \<rparr>)
      | Calls err res \<Rightarrow>
          (case resultHandler H rest b br err res of
             Finished oc br' \<Rightarrow>
               \<lparr> outcome = oc, finalResult = br', dispatched = hist @ [b],
                 remaining = rest \<rparr>
           | NextCommand br' \<Rightarrow> executeCommands H T ord (hist @ [b]) br' rest))"

text \<open>\<^verbatim>\<open>if (x) batches.push(x)\<close>\<close>

fun pushed :: "batch option \<Rightarrow> batch list" where
  "pushed None = []"
| "pushed (Some b) = [b]"

datatype execute_outcome = EarlyError early_error | Executed exec_outcome

record execute_result =
  returned :: execute_outcome
  state :: bulk_operation
  sent :: "batch list"

text \<open>
  \<^verbatim>\<open>BulkOperationBase.execute\<close>. \<^verbatim>\<open>executeLegacyOperation\<close> calls \<^verbatim>\<open>executeCommands\<close>
  with the bulk operation, whose \<^verbatim>\<open>handleWriteError\<close> is \<open>H\<close>; the write concern of
  the options plays no part in what is sent.
\<close>

definition execute ::
  "write_error_handler \<Rightarrow> transport \<Rightarrow> bulk_operation \<Rightarrow> execute_result" where
  "execute H T bo =
     (if executed bo then
        \<lparr> returned = EarlyError MongoBatchReExecutionError, state = bo, sent = [] \<rparr>
      else
        (let bo1 = bo\<lparr>batches := batches bo @
                     (if isOrdered bo then pushed (currentBatch bo)
                      else pushed (currentInsertBatch bo) @ pushed (currentUpdateBatch bo) @
                           pushed (currentRemoveBatch bo))\<rparr>
         in if batches bo1 = [] then
              \<lparr> returned = EarlyError
                   (MongoInvalidArgumentError ''Invalid BulkOperation, Batch cannot be empty''),
                state = bo1, sent = [] \<rparr>
            else
              (let r = executeCommands H T (isOrdered bo1) [] (bulkResult bo1) (batches bo1)
               in \<lparr> returned = Executed (outcome r),
                    state = bo1\<lparr>executed := True, bulkResult := finalResult r,
                                batches := remaining r\<rparr>,
                    sent = dispatched r \<rparr>)))"

section \<open>Wire compression\<close>

text \<open>
  \<^verbatim>\<open>decompress\<close> of the compression module. The snappy binding and \<^verbatim>\<open>zlib.inflate\<close>
  are outside the program and are parameters: each takes the data and calls the callback
  with an error or with a buffer.
\<close>

type_synonym buffer = "8 word list"

datatype codec_callback = CodecError string | CodecData buffer

datatype snappy_module = SnappyModuleError string | SnappyModule "buffer \<Rightarrow> codec_callback"

datatype decompress_outcome = MongoDecompressionError int | CallsBack codec_callback

definition Compressor_none :: int where "Compressor_none = 0"
definition Compressor_snappy :: int where "Compressor_snappy = 1"
definition Compressor_zlib :: int where "Compressor_zlib = 2"

definition decompress ::
  "snappy_module \<Rightarrow> (buffer \<Rightarrow> codec_callback) \<Rightarrow> int \<Rightarrow> buffer \<Rightarrow> decompress_outcome" where
  "decompress Snappy inflate compressorID compressedData =
     (if compressorID < 0 \<or> compressorID > 2 then MongoDecompressionError compressorID
      else if compressorID = Compressor_snappy then
        (case Snappy of
           SnappyModuleError e \<Rightarrow> CallsBack (CodecError e)
         | SnappyModule uncompress \<Rightarrow> CallsBack (uncompress compressedData))
      else if compressorID = Compressor_zlib then CallsBack (inflate compressedData)
      else CallsBack (CodecData compressedData))"

section \<open>Successive merge calls and the order on operation times\<close>

text \<open>
  The executor calls \<^verbatim>\<open>mergeBatchResults(batch, bulkResult, undefined, result)\<close> once for
  each response, on the same cumulative result. \<open>mergeAll\<close> is that sequence of calls;
  it stops at the first call that throws.
\<close>

fun mergeAll :: "bulk_result \<Rightarrow> (batch \<times> document) list \<Rightarrow> thrown_error + bulk_result" where
  "mergeAll br [] = Inr br"
| "mergeAll br ((b, d) # rest) =
     (case mergeBatchResults b br None (Some d) of
        Inl x \<Rightarrow> Inl x
      | Inr (mergeResult, br') \<Rightarrow> mergeAll br' rest)"

text \<open>
  The marker a response shows to the merger: \<^verbatim>\<open>lastOp\<close> before \<^verbatim>\<open>opTime\<close>, and none
  when the response is a top-level failure, which is never looked into.
\<close>

definition seenMarker :: "document \<Rightarrow> op_time option" where
  "seenMarker d =
     (case effective_result None (Some d) of
        None \<Rightarrow> None
      | Some r \<Rightarrow>
          (if r_ok r = Some 0 then None
           else (case r_lastOp r of Some l \<Rightarrow> Some l | None \<Rightarrow> r_opTime r)))"

fun seenMarkers :: "(batch \<times> document) list \<Rightarrow> op_time list" where
  "seenMarkers [] = []"
| "seenMarkers ((b, d) # rest) =
     (case seenMarker d of None \<Rightarrow> seenMarkers rest | Some m \<Rightarrow> m # seenMarkers rest)"

text \<open>
  The integer a \<^verbatim>\<open>Long\<close> stands for, and when the library's comparison of two of them
  is the comparison of those integers: when they have the same signedness, or both lie
  in the signed range.
\<close>

fun longValue :: "bson_long \<Rightarrow> int" where
  "longValue (BsonLong u w) = (if u then uint w else sint w)"

definition comparable :: "bson_long \<Rightarrow> bson_long \<Rightarrow> bool" where
  "comparable a b =
     (is_unsigned a = is_unsigned b \<or> (longValue a < 2 ^ 63 \<and> longValue b < 2 ^ 63))"

text \<open>
  Two markers are compatible when both are raw timestamps, or both are documents whose
  seconds are comparable and whose ordinals are comparable.
\<close>

fun compatible :: "op_time \<Rightarrow> op_time \<Rightarrow> bool" where
  "compatible (Timestamp v) (Timestamp w) = True"
| "compatible (OpTime ts1 t1) (OpTime ts0 t0) =
     (comparable (toLong ts1) (toLong ts0) \<and> comparable (toLong t1) (toLong t0))"
| "compatible (Timestamp v) (OpTime ts0 t0) = False"
| "compatible (OpTime ts1 t1) (Timestamp w) = False"

text \<open>
  The specification's order: seconds first, then the ordinal. For a \<^verbatim>\<open>{ts, t}\<close>
  document the two components are read after normalising them to \<^verbatim>\<open>Long\<close>; a raw
  \<^verbatim>\<open>Timestamp\<close> holds the seconds in its high 32 bits and the ordinal in its low 32 bits.
\<close>

fun opTimeKey :: "op_time \<Rightarrow> int \<times> int" where
  "opTimeKey (OpTime ts t) = (longValue (toLong ts), longValue (toLong t))"
| "opTimeKey (Timestamp v) = (uint (drop_bit 32 v), uint (take_bit 32 v))"

definition lex_greater :: "int \<times> int \<Rightarrow> int \<times> int \<Rightarrow> bool" where
  "lex_greater a b = (fst b < fst a \<or> (fst a = fst b \<and> snd b < snd a))"

text \<open>
  What holds of the stored marker after any number of merge calls on compatible
  markers: it is one of the markers seen, and no marker seen is greater.
\<close>

definition marker_invariant :: "bulk_result \<Rightarrow> op_time list \<Rightarrow> bool" where
  "marker_invariant br seen =
     ((ok br = 0 \<or> ok br = 1) \<and>
      (case opTime br of
         None \<Rightarrow> seen = []
       | Some m \<Rightarrow> m \<in> set seen \<and>
           (\<forall>m' \<in> set seen. \<not> lex_greater (opTimeKey m') (opTimeKey m))))"

section \<open>Properties of the result merger\<close>

subsection \<open>The three ways a merge call goes\<close>

lemma mergeBatchResults_absent:
  "effective_result err res = None \<Longrightarrow> mergeBatchResults b br err res = Inr (JSUndefined, br)"
  by (simp add: mergeBatchResults_def)

lemma mergeBatchResults_topLevel:
  "effective_result err res = Some r \<Longrightarrow> r_ok r = Some 0 \<Longrightarrow> ok br = 1 \<Longrightarrow>
   mergeBatchResults b br err res =
     Inr (JSUndefined, br\<lparr>ok := 0, writeErrors := writeErrors br @ [topLevelWriteError b r]\<rparr>)"
  by (simp add: mergeBatchResults_def)

lemma mergeBatchResults_terminal:
  "effective_result err res = Some r \<Longrightarrow> r_ok r = Some 0 \<Longrightarrow> ok br = 0 \<Longrightarrow>
   mergeBatchResults b br err res = Inr (JSUndefined, br)"
  by (simp add: mergeBatchResults_def)

lemma mergeBatchResults_fields:
  "effective_result err res = Some r \<Longrightarrow> r_ok r \<noteq> Some 0 \<Longrightarrow>
   mergeBatchResults b br err res =
     (case mergeOpTime (opTime br) r of
        Inl e \<Rightarrow> Inl e
      | Inr ot \<Rightarrow>
          Inr (JSUndefined,
            mergeWriteConcernError r (mergeWriteErrors b r (mergeUpdated b r
              (mergeUpserted b r (mergeRemoved b r (mergeInserted b r (br\<lparr>opTime := ot\<rparr>))))))))"
  by (simp add: mergeBatchResults_def)

lemma mergeBatchResults_undefined:
  "mergeBatchResults b br err res = Inr (v, br') \<Longrightarrow> v = JSUndefined"
  by (auto simp: mergeBatchResults_def split: option.splits if_splits sum.splits)

subsection \<open>Which blocks touch which fields\<close>

lemma nModified_mergeWriteConcernError [simp]:
  "nModified (mergeWriteConcernError r br) = nModified br"
  by (simp add: mergeWriteConcernError_def split: option.splits)

lemma nModified_mergeWriteErrors [simp]:
  "nModified (mergeWriteErrors b r br) = nModified br"
  by (simp add: mergeWriteErrors_def split: option.splits)

lemma writeErrors_mergeWriteConcernError [simp]:
  "writeErrors (mergeWriteConcernError r br) = writeErrors br"
  by (simp add: mergeWriteConcernError_def split: option.splits)

lemma writeErrors_mergeUpdated [simp]:
  "writeErrors (mergeUpdated b r br) = writeErrors br"
  by (simp add: mergeUpdated_def Let_def split: option.splits)

lemma writeErrors_mergeUpserted [simp]:
  "writeErrors (mergeUpserted b r br) = writeErrors br"
  by (simp add: mergeUpserted_def split: upserted_field.splits)

lemma writeErrors_mergeRemoved [simp]:
  "writeErrors (mergeRemoved b r br) = writeErrors br"
  by (simp add: mergeRemoved_def)

lemma writeErrors_mergeInserted [simp]:
  "writeErrors (mergeInserted b r br) = writeErrors br"
  by (simp add: mergeInserted_def)

lemma ok_blocks [simp]:
  "ok (mergeWriteConcernError r br) = ok br"
  "ok (mergeWriteErrors b r br) = ok br"
  "ok (mergeUpdated b r br) = ok br"
  "ok (mergeUpserted b r br) = ok br"
  "ok (mergeRemoved b r br) = ok br"
  "ok (mergeInserted b r br) = ok br"
  by (simp_all add: mergeWriteConcernError_def mergeWriteErrors_def mergeUpdated_def
      mergeUpserted_def mergeRemoved_def mergeInserted_def Let_def
      split: option.splits upserted_field.splits)

lemma opTime_blocks [simp]:
  "opTime (mergeWriteConcernError r br) = opTime br"
  "opTime (mergeWriteErrors b r br) = opTime br"
  "opTime (mergeUpdated b r br) = opTime br"
  "opTime (mergeUpserted b r br) = opTime br"
  "opTime (mergeRemoved b r br) = opTime br"
  "opTime (mergeInserted b r br) = opTime br"
  by (simp_all add: mergeWriteConcernError_def mergeWriteErrors_def mergeUpdated_def
      mergeUpserted_def mergeRemoved_def mergeInserted_def Let_def
      split: option.splits upserted_field.splits)

lemma writeConcernErrors_blocks [simp]:
  "writeConcernErrors (mergeWriteErrors b r br) = writeConcernErrors br"
  "writeConcernErrors (mergeUpdated b r br) = writeConcernErrors br"
  "writeConcernErrors (mergeUpserted b r br) = writeConcernErrors br"
  "writeConcernErrors (mergeRemoved b r br) = writeConcernErrors br"
  "writeConcernErrors (mergeInserted b r br) = writeConcernErrors br"
  by (simp_all add: mergeWriteErrors_def mergeUpdated_def
      mergeUpserted_def mergeRemoved_def mergeInserted_def Let_def
      split: option.splits upserted_field.splits)

subsection \<open>Top-level command failure\<close>

text \<open>
  Claim C1. A response with \<^verbatim>\<open>ok == 0\<close> merged into a result that still has
  \<^verbatim>\<open>ok == 1\<close> should record one write error whose index is the batch's
  \<^verbatim>\<open>originalZeroIndex\<close>. The code writes the constant \<^verbatim>\<open>index: 0\<close>: for a batch whose
  first operation was the caller's operation 5, the recorded error carries index 0, next
  to the offending operation \<^verbatim>\<open>batch.operations[0]\<close>, the command's code and message,
  and \<^verbatim>\<open>ok\<close> set to 0. Nothing else of the response is merged.
\<close>

theorem mergeBatchResults_topLevel_index_is_zero:
  "mergeBatchResults
     \<lparr> originalZeroIndex = 5, currentIndex = 1, originalIndexes = [5], batchType = INSERT,
       operations = [JSObject [(''a'', JSNumber 1)]], batch_size = 1, sizeBytes = 20 \<rparr>
     initial_bulkResult None
     (Some (Document
        (no_fields\<lparr>r_ok := Some 0, r_code := Some 11000, r_message := Some ''E11000'',
                    r_n := Some 1\<rparr>) None))
   = Inr (JSUndefined,
       initial_bulkResult\<lparr>ok := 0,
         writeErrors := [\<lparr> index = Some 0, code = 11000, errmsg = Some ''E11000'',
                           op = Some (JSObject [(''a'', JSNumber 1)]) \<rparr>]\<rparr>)"
  by (simp add: mergeBatchResults_def effective_result_def no_fields_def initial_bulkResult_def
      topLevelWriteError_def code_or_zero_def truthy_number_def js_nth_def)

subsection \<open>Update batches without a modified count\<close>

text \<open>
  Claim C2, as stated, fails: an update batch whose response has \<^verbatim>\<open>n = 1\<close> and no
  \<^verbatim>\<open>nModified\<close>, merged into a result that has \<^verbatim>\<open>nModified = 3\<close> from earlier
  batches, leaves \<^verbatim>\<open>nModified = 0\<close>, not 3.
\<close>

theorem mergeBatchResults_nModified_reset_counterexample:
  "nModified (initial_bulkResult\<lparr>nModified := 3\<rparr>) = 3 \<and>
   mergeBatchResults
     \<lparr> originalZeroIndex = 4, currentIndex = 1, originalIndexes = [4], batchType = UPDATE,
       operations = [JSObject [(''q'', JSObject [])]], batch_size = 1, sizeBytes = 20 \<rparr>
     (initial_bulkResult\<lparr>nModified := 3\<rparr>) None
     (Some (Document (no_fields\<lparr>r_ok := Some 1, r_n := Some 1\<rparr>) None))
   = Inr (JSUndefined, initial_bulkResult\<lparr>nMatched := 1, nModified := 0\<rparr>)"
  by (simp add: mergeBatchResults_def effective_result_def no_fields_def initial_bulkResult_def
      mergeOpTime_def mergeInserted_def mergeRemoved_def mergeUpserted_def mergeUpdated_def
      mergeWriteErrors_def mergeWriteConcernError_def isInsertBatch_def isDeleteBatch_def
      isUpdateBatch_def truthy_number_def upsertedCount_def)

text \<open>
  Claim C2, amended. For an update batch and a response that is not a top-level failure,
  carries a non-zero affected count \<^verbatim>\<open>n\<close> and has no numeric \<^verbatim>\<open>nModified\<close>, a merge
  call that returns leaves the cumulative \<^verbatim>\<open>nModified\<close> at 0, whatever earlier batches
  had accumulated.
\<close>

theorem mergeBatchResults_update_without_nModified:
  assumes "effective_result err res = Some r" and "r_ok r \<noteq> Some 0"
    and "isUpdateBatch b" and "truthy_number (r_n r)" and "r_nModified r = None"
    and "mergeBatchResults b br err res = Inr (v, br')"
  shows "nModified br' = 0"
  using assms
  by (auto simp: mergeBatchResults_fields mergeUpdated_def Let_def split: sum.splits)

theorem mergeBatchResults_update_without_nModified_witness:
  "effective_result None (Some (Document (no_fields\<lparr>r_ok := Some 1, r_n := Some 2\<rparr>) None))
     = Some (no_fields\<lparr>r_ok := Some 1, r_n := Some 2\<rparr>) \<and>
   r_ok (no_fields\<lparr>r_ok := Some 1, r_n := Some 2\<rparr>) \<noteq> Some 0 \<and>
   isUpdateBatch \<lparr> originalZeroIndex = 4, currentIndex = 2, originalIndexes = [4, 5],
     batchType = UPDATE, operations = [JSNull, JSNull], batch_size = 2, sizeBytes = 40 \<rparr> \<and>
   truthy_number (r_n (no_fields\<lparr>r_ok := Some 1, r_n := Some 2\<rparr>)) \<and>
   r_nModified (no_fields\<lparr>r_ok := Some 1, r_n := Some 2\<rparr>) = None \<and>
   mergeBatchResults \<lparr> originalZeroIndex = 4, currentIndex = 2, originalIndexes = [4, 5],
       batchType = UPDATE, operations = [JSNull, JSNull], batch_size = 2, sizeBytes = 40 \<rparr>
     (initial_bulkResult\<lparr>nModified := 7\<rparr>) None
     (Some (Document (no_fields\<lparr>r_ok := Some 1, r_n := Some 2\<rparr>) None))
     = Inr (JSUndefined, initial_bulkResult\<lparr>nMatched := 2, nModified := 0\<rparr>) \<and>
   nModified (initial_bulkResult\<lparr>nMatched := 2, nModified := 0\<rparr>) = 0"
proof -
  let ?r = "no_fields\<lparr>r_ok := Some 1, r_n := Some 2\<rparr>"
  let ?b = "\<lparr> originalZeroIndex = 4, currentIndex = 2, originalIndexes = [4, 5],
     batchType = UPDATE, operations = [JSNull, JSNull], batch_size = 2, sizeBytes = 40 \<rparr>"
  have h1: "effective_result None (Some (Document ?r None)) = Some ?r"
    by (simp add: effective_result_def)
  have h2: "r_ok ?r \<noteq> Some 0" by simp
  have h3: "isUpdateBatch ?b" by (simp add: isUpdateBatch_def)
  have h4: "truthy_number (r_n ?r)" by (simp add: truthy_number_def)
  have h5: "r_nModified ?r = None" by (simp add: no_fields_def)
  have h6: "mergeBatchResults ?b (initial_bulkResult\<lparr>nModified := 7\<rparr>) None
      (Some (Document ?r None))
      = Inr (JSUndefined, initial_bulkResult\<lparr>nMatched := 2, nModified := 0\<rparr>)"
    by (simp add: mergeBatchResults_def effective_result_def no_fields_def
        initial_bulkResult_def mergeOpTime_def mergeInserted_def mergeRemoved_def
        mergeUpserted_def mergeUpdated_def mergeWriteErrors_def mergeWriteConcernError_def
        isInsertBatch_def isDeleteBatch_def isUpdateBatch_def truthy_number_def
        upsertedCount_def)
  from mergeBatchResults_update_without_nModified [OF h1 h2 h3 h4 h5 h6]
  show ?thesis using h1 h2 h3 h4 h5 h6 by simp
qed

subsection \<open>The terminal state\<close>

text \<open>
  Claim C3, as stated, fails: with the cumulative \<^verbatim>\<open>ok\<close> already 0, merging the
  response \<^verbatim>\<open>{ok: 1, n: 2}\<close> of an insert batch raises \<^verbatim>\<open>nInserted\<close> from 0 to 2.
\<close>

theorem mergeBatchResults_terminal_counts_counterexample:
  "ok (initial_bulkResult\<lparr>ok := 0\<rparr>) = 0 \<and>
   nInserted (initial_bulkResult\<lparr>ok := 0\<rparr>) = 0 \<and>
   mergeBatchResults
     \<lparr> originalZeroIndex = 0, currentIndex = 2, originalIndexes = [0, 1], batchType = INSERT,
       operations = [JSObject [(''a'', JSNumber 1)], JSObject [(''a'', JSNumber 2)]],
       batch_size = 2, sizeBytes = 40 \<rparr>
     (initial_bulkResult\<lparr>ok := 0\<rparr>) None
     (Some (Document (no_fields\<lparr>r_ok := Some 1, r_n := Some 2\<rparr>) None))
   = Inr (JSUndefined, initial_bulkResult\<lparr>ok := 0, nInserted := 2\<rparr>)"
  by (simp add: mergeBatchResults_def effective_result_def no_fields_def initial_bulkResult_def
      mergeOpTime_def mergeInserted_def mergeRemoved_def mergeUpserted_def mergeUpdated_def
      mergeWriteErrors_def mergeWriteConcernError_def isInsertBatch_def isDeleteBatch_def
      isUpdateBatch_def truthy_number_def upsertedCount_def)

text \<open>
  Claim C3, amended. Once the cumulative result has \<^verbatim>\<open>ok == 0\<close>, a merge call whose
  response is absent or itself has \<^verbatim>\<open>ok == 0\<close> returns without changing the cumulative
  result: no count field moves, and nothing else does either.
\<close>

theorem mergeBatchResults_terminal_noop:
  assumes "ok br = 0"
    and "effective_result err res = None \<or>
         (\<exists>r. effective_result err res = Some r \<and> r_ok r = Some 0)"
  shows "mergeBatchResults b br err res = Inr (JSUndefined, br)"
  using assms by (auto simp: mergeBatchResults_absent mergeBatchResults_terminal)

theorem mergeBatchResults_terminal_noop_witness:
  "ok (initial_bulkResult\<lparr>ok := 0, nInserted := 4\<rparr>) = 0 \<and>
   effective_result None (Some (Document (no_fields\<lparr>r_ok := Some 0, r_n := Some 2\<rparr>) None))
     = Some (no_fields\<lparr>r_ok := Some 0, r_n := Some 2\<rparr>) \<and>
   r_ok (no_fields\<lparr>r_ok := Some 0, r_n := Some 2\<rparr>) = Some 0 \<and>
   mergeBatchResults
     \<lparr> originalZeroIndex = 4, currentIndex = 2, originalIndexes = [4, 5], batchType = INSERT,
       operations = [JSNull, JSNull], batch_size = 2, sizeBytes = 40 \<rparr>
     (initial_bulkResult\<lparr>ok := 0, nInserted := 4\<rparr>) None
     (Some (Document (no_fields\<lparr>r_ok := Some 0, r_n := Some 2\<rparr>) None))
   = Inr (JSUndefined, initial_bulkResult\<lparr>ok := 0, nInserted := 4\<rparr>)"
proof -
  let ?r = "no_fields\<lparr>r_ok := Some 0, r_n := Some 2\<rparr>"
  have h1: "ok (initial_bulkResult\<lparr>ok := 0, nInserted := 4\<rparr>) = 0" by simp
  have e: "effective_result None (Some (Document ?r None)) = Some ?r"
    by (simp add: effective_result_def)
  have k: "r_ok ?r = Some 0" by simp
  have h2: "effective_result None (Some (Document ?r None)) = None \<or>
      (\<exists>r. effective_result None (Some (Document ?r None)) = Some r \<and> r_ok r = Some 0)"
    using e k by blast
  from mergeBatchResults_terminal_noop [OF h1 h2]
  show ?thesis using h1 e k by simp
qed

subsection \<open>The operation time\<close>

lemma int_less_div_mod:
  fixes a b k :: int
  assumes "0 < k"
  shows "(b < a) = (b div k < a div k \<or> (a div k = b div k \<and> b mod k < a mod k))"
proof -
  define A B where "A = k * (a div k)" and "B = k * (b div k)"
  have a: "a = A + a mod k" and b: "b = B + b mod k" by (simp_all add: A_def B_def)
  have ma: "0 \<le> a mod k" "a mod k < k" and mb: "0 \<le> b mod k" "b mod k < k"
    using assms by simp_all
  show ?thesis
  proof (cases "a div k = b div k")
    case True
    then have "A = B" by (simp add: A_def B_def)
    then show ?thesis using a b True by linarith
  next
    case False
    then consider "a div k < b div k" | "b div k < a div k" by linarith
    then show ?thesis
    proof cases
      case 1
      then have "a div k + 1 \<le> b div k" by simp
      then have "k * (a div k + 1) \<le> k * (b div k)" using assms by simp
      then have "A + k \<le> B" by (simp add: A_def B_def algebra_simps)
      then have "a < b" using a b ma mb by linarith
      then show ?thesis using 1 by auto
    next
      case 2
      then have "b div k + 1 \<le> a div k" by simp
      then have "k * (b div k + 1) \<le> k * (a div k)" using assms by simp
      then have "B + k \<le> A" by (simp add: A_def B_def algebra_simps)
      then have "b < a" using a b ma mb by linarith
      then show ?thesis using 2 by auto
    qed
  qed
qed

lemma bit63_sint: "bit w 63 \<longleftrightarrow> sint w < 0" for w :: "64 word"
  using bit_last_iff [of w] by simp

lemma sint_bounds: "- (2 ^ 63) \<le> sint w" "sint w < 2 ^ 63" for w :: "64 word"
  using sint_ge [of w] sint_lt [of w] by simp_all

lemma uint_as_sint: "uint w = (if 0 \<le> sint w then sint w else sint w + 2 ^ 64)"
  for w :: "64 word"
proof -
  have u: "uint w = sint w mod 2 ^ 64" using uint_sint [of w] by (simp add: take_bit_eq_mod)
  show ?thesis
  proof (cases "0 \<le> sint w")
    case True
    then have "sint w mod 2 ^ 64 = sint w" using sint_bounds(2) [of w] by simp
    then show ?thesis using u True by simp
  next
    case False
    have "(sint w + 2 ^ 64) mod 2 ^ 64 = sint w mod 2 ^ 64" by simp
    moreover have "(sint w + 2 ^ 64) mod 2 ^ 64 = sint w + 2 ^ 64"
      using False sint_bounds(1) [of w] by (intro mod_pos_pos_trivial) simp_all
    ultimately show ?thesis using u False by simp
  qed
qed

lemma sint_diff_exact:
  fixes x y :: "64 word"
  assumes "- (2 ^ 63) \<le> sint x - sint y" and "sint x - sint y < 2 ^ 63"
  shows "sint (x - y) = sint x - sint y"
  using assms sint_word_diff [of x y] by (simp add: signed_take_bit_int_eq_self)

lemma sint_inject: "sint x = sint y \<longleftrightarrow> x = y" for x y :: "64 word"
  by (auto intro: signed_word_eqI)

text \<open>On comparable values the library's comparison is the order of the integers.\<close>

lemma Long_order:
  assumes "comparable a b"
  shows "Long_greaterThan a b = (longValue b < longValue a)"
    and "Long_equals a b = (longValue a = longValue b)"
proof -
  obtain ua x where a: "a = BsonLong ua x" by (cases a)
  obtain ub y where b: "b = BsonLong ub y" by (cases b)
  note bx = sint_bounds [of x] and by' = sint_bounds [of y]
  note ux = uint_as_sint [of x] and uy = uint_as_sint [of y]
  have lt: "(x < y) = (uint x < uint y)" by (simp add: word_less_def)
  have inj: "(x = y) = (sint x = sint y)" by (simp add: sint_inject)
  have same: "sint (x - y) = sint x - sint y"
    if "(0 \<le> sint x) = (0 \<le> sint y)"
    using that bx by' by (intro sint_diff_exact) auto
  have cmp: "ua = ub \<or> ((if ua then uint x else sint x) < 2 ^ 63 \<and>
      (if ub then uint y else sint y) < 2 ^ 63)"
    using assms a b by (simp add: comparable_def)
  show "Long_greaterThan a b = (longValue b < longValue a)"
  proof (cases "(0 \<le> sint x) = (0 \<le> sint y)")
    case True
    from same [OF True] True show ?thesis
      using cmp bx by' ux uy
      by (auto simp: a b Long_greaterThan_def Long_compare_def Long_equals_def
          Long_isNegative_def bit63_sint lt inj split: if_splits)
  next
    case False
    then show ?thesis
      using cmp bx by' ux uy
      by (auto simp: a b Long_greaterThan_def Long_compare_def Long_equals_def
          Long_isNegative_def bit63_sint lt inj split: if_splits)
  qed
  show "Long_equals a b = (longValue a = longValue b)"
    using cmp bx by' ux uy
    by (auto simp: a b Long_equals_def bit63_sint inj split: if_splits)
qed

lemma Timestamp_greaterThan_lex:
  "Long_greaterThan (BsonLong True v) (BsonLong True w) \<longleftrightarrow>
   lex_greater (opTimeKey (Timestamp v)) (opTimeKey (Timestamp w))"
proof -
  have "Long_greaterThan (BsonLong True v) (BsonLong True w) = (uint w < uint v)"
    using Long_order(1) [of "BsonLong True v" "BsonLong True w"]
    by (simp add: comparable_def)
  also have "\<dots> = (uint w div 2 ^ 32 < uint v div 2 ^ 32 \<or>
      (uint v div 2 ^ 32 = uint w div 2 ^ 32 \<and> uint w mod 2 ^ 32 < uint v mod 2 ^ 32))"
    by (rule int_less_div_mod) simp
  finally show ?thesis
    by (simp add: lex_greater_def unsigned_drop_bit_eq
        unsigned_take_bit_eq drop_bit_eq_div take_bit_eq_mod uint_div_distrib uint_mod_distrib)
qed

lemma Timestamp_greaterThan_zero:
  "Long_greaterThan (BsonLong True v) (BsonLong False 0) \<longleftrightarrow> v \<noteq> 0"
proof -
  have "(0 < v) = (v \<noteq> 0)" by (simp add: word_neq_0_conv)
  then show ?thesis
    by (auto simp: Long_greaterThan_def Long_compare_def Long_equals_def Long_isNegative_def)
qed

lemma mergeOpTime_no_marker:
  "r_lastOp r = None \<Longrightarrow> r_opTime r = None \<Longrightarrow> mergeOpTime cur r = Inr cur"
  by (simp add: mergeOpTime_def)

lemma mergeOpTime_first:
  "(case r_lastOp r of Some l \<Rightarrow> Some l | None \<Rightarrow> r_opTime r) = Some m \<Longrightarrow>
   mergeOpTime None r = Inr (Some m)"
  by (cases m) (auto simp: mergeOpTime_def split: option.splits)

lemma mergeOpTime_compatible:
  assumes mk: "(case r_lastOp r of Some l \<Rightarrow> Some l | None \<Rightarrow> r_opTime r) = Some m"
    and co: "compatible m m0"
  shows "mergeOpTime (Some m0) r =
     Inr (Some (if lex_greater (opTimeKey m) (opTimeKey m0) then m else m0))"
proof -
  have present: "r_opTime r \<noteq> None \<or> r_lastOp r \<noteq> None"
    using mk by (auto split: option.splits)
  show ?thesis
  proof (cases m)
    case (Timestamp v)
    then obtain w where m0: "m0 = Timestamp w" using co by (cases m0) auto
    show ?thesis
      using mk present Timestamp m0 Timestamp_greaterThan_lex [of v w]
      by (simp add: mergeOpTime_def)
  next
    case (OpTime ts1 t1)
    then obtain ts0 t0 where m0: "m0 = OpTime ts0 t0" using co by (cases m0) auto
    have c1: "comparable (toLong ts1) (toLong ts0)" and c2: "comparable (toLong t1) (toLong t0)"
      using co OpTime m0 by simp_all
    show ?thesis
      using mk present OpTime m0
      by (simp add: mergeOpTime_def Let_def lex_greater_def Long_order [OF c1]
          Long_order [OF c2])
  qed
qed

lemma mergeOpTime_timestamp_over_document:
  assumes mk: "(case r_lastOp r of Some l \<Rightarrow> Some l | None \<Rightarrow> r_opTime r) = Some (Timestamp v)"
    and nz: "v \<noteq> 0"
  shows "mergeOpTime (Some (OpTime ts0 t0)) r = Inr (Some (Timestamp v))"
proof -
  have present: "r_opTime r \<noteq> None \<or> r_lastOp r \<noteq> None"
    using mk by (auto split: option.splits)
  show ?thesis
    using mk present nz Timestamp_greaterThan_zero [of v]
    by (simp add: mergeOpTime_def)
qed

lemma lex_greater_irrefl: "\<not> lex_greater a a"
  by (simp add: lex_greater_def)

lemma lex_greater_chain: "\<not> lex_greater c b \<Longrightarrow> lex_greater a b \<Longrightarrow> \<not> lex_greater c a"
  by (auto simp: lex_greater_def)

lemma effective_result_Some: "effective_result None (Some d) \<noteq> None"
  by (simp add: effective_result_def split: option.splits)

lemma merge_step_invariant:
  assumes inv: "marker_invariant br seen"
    and compat: "\<And>m m0. seenMarker d = Some m \<Longrightarrow> m0 \<in> set seen \<Longrightarrow> compatible m m0"
  shows "\<exists>br'. mergeBatchResults b br None (Some d) = Inr (JSUndefined, br') \<and>
           marker_invariant br' (seen @ (case seenMarker d of None \<Rightarrow> [] | Some m \<Rightarrow> [m]))"
proof -
  obtain r where r: "effective_result None (Some d) = Some r"
    using effective_result_Some [of d] by auto
  from inv have okbr: "ok br = 0 \<or> ok br = 1" by (simp add: marker_invariant_def)
  show ?thesis
  proof (cases "r_ok r = Some 0")
    case True
    then have none: "seenMarker d = None" using r by (simp add: seenMarker_def)
    from okbr show ?thesis
    proof
      assume "ok br = 0"
      then show ?thesis using inv none mergeBatchResults_terminal [OF r True] by simp
    next
      assume "ok br = 1"
      then show ?thesis using inv none mergeBatchResults_topLevel [OF r True]
        by (simp add: marker_invariant_def)
    qed
  next
    case False
    let ?mk = "case r_lastOp r of Some l \<Rightarrow> Some l | None \<Rightarrow> r_opTime r"
    have sm: "seenMarker d = ?mk" using r False by (simp add: seenMarker_def)
    note fields = mergeBatchResults_fields [OF r False, of b br]
    show ?thesis
    proof (cases ?mk)
      case None
      then have "r_lastOp r = None" "r_opTime r = None" by (auto split: option.splits)
      then have "mergeOpTime (opTime br) r = Inr (opTime br)" by (rule mergeOpTime_no_marker)
      then show ?thesis using fields inv sm None
        by (simp add: marker_invariant_def)
    next
      case (Some m)
      show ?thesis
      proof (cases "opTime br")
        case None
        then have "seen = []" using inv by (simp add: marker_invariant_def)
        moreover have "mergeOpTime (opTime br) r = Inr (Some m)"
          using None mergeOpTime_first [OF Some] by simp
        ultimately show ?thesis using fields sm Some okbr
          by (simp add: marker_invariant_def lex_greater_irrefl)
      next
        case cur: (Some m0)
        then have i0: "m0 \<in> set seen"
          "\<forall>m' \<in> set seen. \<not> lex_greater (opTimeKey m') (opTimeKey m0)"
          using inv by (simp_all add: marker_invariant_def)
        have co: "compatible m m0" using compat sm Some i0(1) by simp
        have mo: "mergeOpTime (opTime br) r =
          Inr (Some (if lex_greater (opTimeKey m) (opTimeKey m0) then m else m0))"
          using mergeOpTime_compatible [OF Some co] cur by simp
        show ?thesis
        proof (cases "lex_greater (opTimeKey m) (opTimeKey m0)")
          case True
          have "\<forall>m' \<in> set seen. \<not> lex_greater (opTimeKey m') (opTimeKey m)"
            using i0(2) True lex_greater_chain by blast
          then show ?thesis using fields mo sm Some okbr True
            by (simp add: marker_invariant_def lex_greater_irrefl)
        next
          case False
          then show ?thesis using fields mo sm Some i0 okbr
            by (simp add: marker_invariant_def)
        qed
      qed
    qed
  qed
qed

lemma mergeAll_invariant:
  assumes "marker_invariant br seen"
    and "\<forall>m \<in> set (seen @ seenMarkers calls). \<forall>m' \<in> set (seen @ seenMarkers calls).
           compatible m m'"
  shows "\<exists>br'. mergeAll br calls = Inr br' \<and> marker_invariant br' (seen @ seenMarkers calls)"
  using assms
proof (induction calls arbitrary: br seen)
  case Nil
  then show ?case by simp
next
  case (Cons c calls)
  obtain b d where c: "c = (b, d)" by (cases c)
  let ?new = "case seenMarker d of None \<Rightarrow> [] | Some m \<Rightarrow> [m]"
  have split: "seen @ seenMarkers (c # calls) = (seen @ ?new) @ seenMarkers calls"
    using c by (simp split: option.splits)
  have compat: "\<And>m m0. seenMarker d = Some m \<Longrightarrow> m0 \<in> set seen \<Longrightarrow> compatible m m0"
    using Cons.prems(2) c by (auto split: option.splits)
  have rest: "\<forall>m \<in> set ((seen @ ?new) @ seenMarkers calls).
      \<forall>m' \<in> set ((seen @ ?new) @ seenMarkers calls). compatible m m'"
    using Cons.prems(2) unfolding split .
  from merge_step_invariant [OF Cons.prems(1) compat, where b = b]
  obtain br1 where s1: "mergeBatchResults b br None (Some d) = Inr (JSUndefined, br1)"
    and i1: "marker_invariant br1 (seen @ ?new)"
    by blast
  from Cons.IH [OF i1 rest]
  show ?case using s1 c unfolding split by auto
qed

text \<open>
  Claim C6, as stated, fails: the markers seen need not be of one kind. After a response
  with the marker \<^verbatim>\<open>{ts: 5, t: 1}\<close>, a response whose marker is the raw timestamp of
  second 1, ordinal 0 replaces the stored marker, though (5, 1) is the greater.
\<close>

theorem mergeAll_opTime_timestamp_counterexample:
  "mergeAll initial_bulkResult
       [(\<lparr> originalZeroIndex = 0, currentIndex = 1, originalIndexes = [0], batchType = INSERT,
            operations = [JSNull], batch_size = 1, sizeBytes = 20 \<rparr>,
         Document (no_fields\<lparr>r_ok := Some 1,
           r_opTime := Some (OpTime (Number 5) (Number 1))\<rparr>) None),
        (\<lparr> originalZeroIndex = 1, currentIndex = 1, originalIndexes = [1], batchType = INSERT,
            operations = [JSNull], batch_size = 1, sizeBytes = 20 \<rparr>,
         Document (no_fields\<lparr>r_ok := Some 1,
           r_opTime := Some (Timestamp 4294967296)\<rparr>) None)]
     = Inr (initial_bulkResult\<lparr>opTime := Some (Timestamp 4294967296)\<rparr>) \<and>
   opTimeKey (OpTime (Number 5) (Number 1)) = (5, 1) \<and>
   opTimeKey (Timestamp 4294967296) = (1, 0) \<and>
   lex_greater (5, 1) (1, 0)"
proof -
  have gt: "Long_greaterThan (BsonLong True 4294967296) (BsonLong False 0)"
    using Timestamp_greaterThan_zero [of 4294967296] by simp
  have run: "mergeAll initial_bulkResult
       [(\<lparr> originalZeroIndex = 0, currentIndex = 1, originalIndexes = [0], batchType = INSERT,
            operations = [JSNull], batch_size = 1, sizeBytes = 20 \<rparr>,
         Document (no_fields\<lparr>r_ok := Some 1,
           r_opTime := Some (OpTime (Number 5) (Number 1))\<rparr>) None),
        (\<lparr> originalZeroIndex = 1, currentIndex = 1, originalIndexes = [1], batchType = INSERT,
            operations = [JSNull], batch_size = 1, sizeBytes = 20 \<rparr>,
         Document (no_fields\<lparr>r_ok := Some 1,
           r_opTime := Some (Timestamp 4294967296)\<rparr>) None)]
     = Inr (initial_bulkResult\<lparr>opTime := Some (Timestamp 4294967296)\<rparr>)"
    using gt
    by (simp add: mergeBatchResults_def effective_result_def no_fields_def
        initial_bulkResult_def mergeOpTime_def mergeInserted_def mergeRemoved_def
        mergeUpserted_def mergeUpdated_def mergeWriteErrors_def mergeWriteConcernError_def
        isInsertBatch_def isDeleteBatch_def isUpdateBatch_def truthy_number_def
        upsertedCount_def)
  have k1: "opTimeKey (OpTime (Number 5) (Number 1)) = (5, 1)"
    by (simp add: Long_fromNumber_def)
  have hi: "drop_bit 32 (4294967296 :: 64 word) = 1"
    by (simp add: drop_bit_eq_div)
  have lo: "take_bit 32 (4294967296 :: 64 word) = 0"
    by (simp add: take_bit_eq_mod)
  have k2: "opTimeKey (Timestamp 4294967296) = (1, 0)"
    by (simp add: hi lo)
  show ?thesis using run k1 k2 by (simp add: lex_greater_def)
qed

text \<open>
  Claim C6, amended. Start from a cumulative result without a marker and merge any
  sequence of responses whose markers are compatible with one another: all raw
  timestamps, or all \<^verbatim>\<open>{ts, t}\<close> documents whose components, numbers normalised to
  \<^verbatim>\<open>Long\<close> before comparison, have one signedness or lie in the signed range. Every
  call returns, and the stored marker is a lexicographic maximum, seconds first and then
  the ordinal, of the markers seen: it is one of them and none of them is greater; with
  no marker seen, none is stored. A raw timestamp that is not zero, merged when a
  \<^verbatim>\<open>{ts, t}\<close> document is stored, replaces it whatever the document holds.
\<close>

theorem mergeAll_opTime_lexicographic_maximum:
  "((ok br = 0 \<or> ok br = 1) \<and> opTime br = None \<and>
    (\<forall>m \<in> set (seenMarkers calls). \<forall>m' \<in> set (seenMarkers calls). compatible m m') \<longrightarrow>
    (\<exists>br'. mergeAll br calls = Inr br' \<and>
       (case opTime br' of
          None \<Rightarrow> seenMarkers calls = []
        | Some m \<Rightarrow> m \<in> set (seenMarkers calls) \<and>
            (\<forall>m' \<in> set (seenMarkers calls). \<not> lex_greater (opTimeKey m') (opTimeKey m)))))
   \<and> (effective_result err res = Some r \<and> r_ok r \<noteq> Some 0 \<and>
       (case r_lastOp r of Some l \<Rightarrow> Some l | None \<Rightarrow> r_opTime r) = Some (Timestamp v) \<and>
       v \<noteq> 0 \<and> opTime br0 = Some (OpTime ts0 t0) \<longrightarrow>
       (\<exists>br'. mergeBatchResults b br0 err res = Inr (JSUndefined, br') \<and>
          opTime br' = Some (Timestamp v)))"
proof (intro conjI impI)
  assume a: "(ok br = 0 \<or> ok br = 1) \<and> opTime br = None \<and>
    (\<forall>m \<in> set (seenMarkers calls). \<forall>m' \<in> set (seenMarkers calls). compatible m m')"
  then have inv: "marker_invariant br []" by (simp add: marker_invariant_def)
  have co: "\<forall>m \<in> set ([] @ seenMarkers calls). \<forall>m' \<in> set ([] @ seenMarkers calls).
      compatible m m'"
    using a by simp
  from mergeAll_invariant [OF inv co]
  show "\<exists>br'. mergeAll br calls = Inr br' \<and>
       (case opTime br' of
          None \<Rightarrow> seenMarkers calls = []
        | Some m \<Rightarrow> m \<in> set (seenMarkers calls) \<and>
            (\<forall>m' \<in> set (seenMarkers calls). \<not> lex_greater (opTimeKey m') (opTimeKey m)))"
    by (auto simp: marker_invariant_def split: option.splits)
next
  assume a: "effective_result err res = Some r \<and> r_ok r \<noteq> Some 0 \<and>
       (case r_lastOp r of Some l \<Rightarrow> Some l | None \<Rightarrow> r_opTime r) = Some (Timestamp v) \<and>
       v \<noteq> 0 \<and> opTime br0 = Some (OpTime ts0 t0)"
  then have eff: "effective_result err res = Some r" and nok: "r_ok r \<noteq> Some 0"
    and mk: "(case r_lastOp r of Some l \<Rightarrow> Some l | None \<Rightarrow> r_opTime r) = Some (Timestamp v)"
    and nz: "v \<noteq> 0" and cur: "opTime br0 = Some (OpTime ts0 t0)"
    by simp_all
  have "mergeOpTime (opTime br0) r = Inr (Some (Timestamp v))"
    using mergeOpTime_timestamp_over_document [OF mk nz] cur by simp
  then show "\<exists>br'. mergeBatchResults b br0 err res = Inr (JSUndefined, br') \<and>
      opTime br' = Some (Timestamp v)"
    using mergeBatchResults_fields [OF eff nok, of b br0] by simp
qed

theorem mergeAll_opTime_lexicographic_maximum_witness:
  "(ok initial_bulkResult = 0 \<or> ok initial_bulkResult = 1) \<and>
   opTime initial_bulkResult = None \<and>
   mergeAll initial_bulkResult
       [(\<lparr> originalZeroIndex = 0, currentIndex = 1, originalIndexes = [0], batchType = INSERT,
            operations = [JSNull], batch_size = 1, sizeBytes = 20 \<rparr>,
         Document (no_fields\<lparr>r_ok := Some 1,
           r_opTime := Some (OpTime (Number 5) (Number 1))\<rparr>) None),
        (\<lparr> originalZeroIndex = 1, currentIndex = 1, originalIndexes = [1], batchType = INSERT,
            operations = [JSNull], batch_size = 1, sizeBytes = 20 \<rparr>,
         Document (no_fields\<lparr>r_ok := Some 1,
           r_opTime := Some (OpTime (Number 5) (Long (BsonLong False 2)))\<rparr>) None)]
     = Inr (initial_bulkResult\<lparr>opTime := Some (OpTime (Number 5) (Long (BsonLong False 2)))\<rparr>) \<and>
   mergeAll initial_bulkResult
       [(\<lparr> originalZeroIndex = 0, currentIndex = 1, originalIndexes = [0], batchType = INSERT,
            operations = [JSNull], batch_size = 1, sizeBytes = 20 \<rparr>,
         Document (no_fields\<lparr>r_ok := Some 1,
           r_opTime := Some (OpTime (Number 5) (Number 1))\<rparr>) None),
        (\<lparr> originalZeroIndex = 1, currentIndex = 1, originalIndexes = [1], batchType = INSERT,
            operations = [JSNull], batch_size = 1, sizeBytes = 20 \<rparr>,
         Document (no_fields\<lparr>r_ok := Some 1,
           r_opTime := Some (OpTime (Long (BsonLong True 4)) (Number 9))\<rparr>) None)]
     = Inr (initial_bulkResult\<lparr>opTime := Some (OpTime (Number 5) (Number 1))\<rparr>)"
proof -
  let ?b0 = "\<lparr> originalZeroIndex = 0, currentIndex = 1, originalIndexes = [0],
     batchType = INSERT, operations = [JSNull], batch_size = 1, sizeBytes = 20 \<rparr>"
  let ?b1 = "\<lparr> originalZeroIndex = 1, currentIndex = 1, originalIndexes = [1],
     batchType = INSERT, operations = [JSNull], batch_size = 1, sizeBytes = 20 \<rparr>"
  let ?m51 = "OpTime (Number 5) (Number 1)"
  let ?m52 = "OpTime (Number 5) (Long (BsonLong False 2))"
  let ?m49 = "OpTime (Long (BsonLong True 4)) (Number 9)"
  let ?d51 = "Document (no_fields\<lparr>r_ok := Some 1, r_opTime := Some ?m51\<rparr>) None"
  let ?d52 = "Document (no_fields\<lparr>r_ok := Some 1, r_opTime := Some ?m52\<rparr>) None"
  let ?d49 = "Document (no_fields\<lparr>r_ok := Some 1, r_opTime := Some ?m49\<rparr>) None"
  have h1: "ok initial_bulkResult = 0 \<or> ok initial_bulkResult = 1"
    by (simp add: initial_bulkResult_def)
  have h2: "opTime initial_bulkResult = None" by (simp add: initial_bulkResult_def)
  have five: "longValue (Long_fromNumber 5) = 5" "longValue (Long_fromNumber 1) = 1"
    "longValue (Long_fromNumber 9) = 9"
    by (simp_all add: Long_fromNumber_def)
  have signed: "is_unsigned (Long_fromNumber n) = False" for n
    by (simp add: Long_fromNumber_def)
  have sm2: "seenMarkers [(?b0, ?d51), (?b1, ?d52)] = [?m51, ?m52]"
    by (simp add: seenMarker_def effective_result_def no_fields_def)
  have sm9: "seenMarkers [(?b0, ?d51), (?b1, ?d49)] = [?m51, ?m49]"
    by (simp add: seenMarker_def effective_result_def no_fields_def)
  have c2: "\<forall>m \<in> set (seenMarkers [(?b0, ?d51), (?b1, ?d52)]).
      \<forall>m' \<in> set (seenMarkers [(?b0, ?d51), (?b1, ?d52)]). compatible m m'"
    unfolding sm2 by (simp add: comparable_def signed)
  have c9: "\<forall>m \<in> set (seenMarkers [(?b0, ?d51), (?b1, ?d49)]).
      \<forall>m' \<in> set (seenMarkers [(?b0, ?d51), (?b1, ?d49)]). compatible m m'"
    unfolding sm9 by (simp add: comparable_def signed five)
  note c6 = mergeAll_opTime_lexicographic_maximum
  from c6 [of initial_bulkResult "[(?b0, ?d51), (?b1, ?d52)]"] h1 h2 c2
  obtain br2 where r2: "mergeAll initial_bulkResult [(?b0, ?d51), (?b1, ?d52)] = Inr br2"
    and p2: "case opTime br2 of
               None \<Rightarrow> seenMarkers [(?b0, ?d51), (?b1, ?d52)] = []
             | Some m \<Rightarrow> m \<in> set (seenMarkers [(?b0, ?d51), (?b1, ?d52)]) \<and>
                 (\<forall>m' \<in> set (seenMarkers [(?b0, ?d51), (?b1, ?d52)]).
                    \<not> lex_greater (opTimeKey m') (opTimeKey m))"
    by blast
  have o2: "opTime br2 = Some ?m52"
    using p2 unfolding sm2 by (auto simp: five lex_greater_def split: option.splits)
  from c6 [of initial_bulkResult "[(?b0, ?d51), (?b1, ?d49)]"] h1 h2 c9
  obtain br9 where r9: "mergeAll initial_bulkResult [(?b0, ?d51), (?b1, ?d49)] = Inr br9"
    and p9: "case opTime br9 of
               None \<Rightarrow> seenMarkers [(?b0, ?d51), (?b1, ?d49)] = []
             | Some m \<Rightarrow> m \<in> set (seenMarkers [(?b0, ?d51), (?b1, ?d49)]) \<and>
                 (\<forall>m' \<in> set (seenMarkers [(?b0, ?d51), (?b1, ?d49)]).
                    \<not> lex_greater (opTimeKey m') (opTimeKey m))"
    by blast
  have o9: "opTime br9 = Some ?m51"
    using p9 unfolding sm9 by (auto simp: five lex_greater_def split: option.splits)
  have rest: "br' = initial_bulkResult\<lparr>opTime := opTime br'\<rparr>"
    if "mergeAll initial_bulkResult [(?b0, d), (?b1, d')] = Inr br'"
      and "d = Document (no_fields\<lparr>r_ok := Some 1, r_opTime := Some x\<rparr>) None"
      and "d' = Document (no_fields\<lparr>r_ok := Some 1, r_opTime := Some y\<rparr>) None"
    for br' d d' x y
    using that
    by (auto simp: mergeBatchResults_def effective_result_def no_fields_def
        initial_bulkResult_def mergeInserted_def mergeRemoved_def
        mergeUpserted_def mergeUpdated_def mergeWriteErrors_def mergeWriteConcernError_def
        isInsertBatch_def isDeleteBatch_def isUpdateBatch_def truthy_number_def
        upsertedCount_def split: sum.splits)
  have e2: "br2 = initial_bulkResult\<lparr>opTime := Some ?m52\<rparr>"
    using rest [OF r2 refl refl] o2 by simp
  have e9: "br9 = initial_bulkResult\<lparr>opTime := Some ?m51\<rparr>"
    using rest [OF r9 refl refl] o9 by simp
  show ?thesis using h1 h2 r2 r9 e2 e9 by simp
qed

subsection \<open>Embedded write errors\<close>



section \<open>Properties of the bulk operation\<close>

subsection \<open>The selector of \<^verbatim>\<open>find\<close>\<close>

text \<open>
  Claim C4, as stated, fails for the empty document: \<^verbatim>\<open>find({})\<close> on a new ordered
  bulk operation does not throw; it returns a builder with \<^verbatim>\<open>{}\<close> as the pending
  selector.
\<close>

theorem find_bulk_empty_document_counterexample:
  "find_bulk (new_BulkOperationBase True) (JSObject []) =
     Inr (FindOperators ((new_BulkOperationBase True)\<lparr>currentOp :=
         Some \<lparr> selector = Some (JSObject []), upsert = None, collation = None,
                 arrayFilters = None \<rparr>\<rparr>))"
  by (simp add: find_bulk_def)

text \<open>
  Claim C4, amended. \<^verbatim>\<open>find(selector)\<close> throws the invalid-argument error, before the
  state is touched, exactly when the selector is falsy (absent: \<^verbatim>\<open>undefined\<close> or
  \<^verbatim>\<open>null\<close>). For every other selector it returns a builder on the bulk operation
  whose pending descriptor holds that selector and nothing else; every document, the
  empty one included, is such a selector.
\<close>

theorem find_bulk_selector:
  "(\<not> truthy sel \<longrightarrow>
      find_bulk bo sel =
        Inl (MongoInvalidArgumentError ''Bulk find operation must specify a selector''))
   \<and> (truthy sel \<longrightarrow>
      find_bulk bo sel = Inr (FindOperators (bo\<lparr>currentOp :=
         Some \<lparr> selector = Some sel, upsert = None, collation = None,
                 arrayFilters = None \<rparr>\<rparr>)))
   \<and> truthy (JSObject kvs)"
  by (simp add: find_bulk_def)

theorem find_bulk_selector_witness:
  "\<not> truthy JSUndefined \<and>
   find_bulk (new_BulkOperationBase False) JSUndefined =
     Inl (MongoInvalidArgumentError ''Bulk find operation must specify a selector'') \<and>
   truthy (JSObject [(''a'', JSNumber 1)]) \<and>
   find_bulk (new_BulkOperationBase False) (JSObject [(''a'', JSNumber 1)]) =
     Inr (FindOperators ((new_BulkOperationBase False)\<lparr>currentOp :=
         Some \<lparr> selector = Some (JSObject [(''a'', JSNumber 1)]), upsert = None,
                 collation = None, arrayFilters = None \<rparr>\<rparr>))"
  using find_bulk_selector [of JSUndefined "new_BulkOperationBase False" "[]"]
    find_bulk_selector [of "JSObject [(''a'', JSNumber 1)]" "new_BulkOperationBase False" "[]"]
  by simp

subsection \<open>The result handler\<close>

lemma handleMongoWriteConcernError_Finished:
  "\<exists>oc br'. handleMongoWriteConcernError b br e = Finished oc br' \<and>
     (\<forall>x. oc \<noteq> Called (CallbackResult x))"
  by (auto simp: handleMongoWriteConcernError_def split: sum.splits option.splits prod.splits)






lemma resultHandler_ordinary:
  assumes "err = None \<or> (\<exists>e. err = Some e \<and> \<not> has_message e \<and> \<not> isMongoWriteConcernError e)"
  shows "resultHandler H queued b br err res =
     (case mergeBatchResults b br (map_option e_props err) res of
        Inl x \<Rightarrow> Finished (Threw x) br
      | Inr (v, br') \<Rightarrow>
          (case H queued br' of
             Some e' \<Rightarrow> Finished (Called (CallbackError e')) br'
           | None \<Rightarrow> NextCommand br'))"
  using assms
  by (auto simp: resultHandler_def dest: mergeBatchResults_undefined
      split: sum.splits option.splits)

lemma resultHandler_never_result:
  "resultHandler H queued b br err res \<noteq> Finished (Called (CallbackResult x)) y"
proof (cases "\<exists>e. err = Some e \<and> isMongoWriteConcernError e")
  case True
  then obtain e where e: "err = Some e" "isMongoWriteConcernError e" by blast
  obtain oc br' where h: "handleMongoWriteConcernError b br e = Finished oc br'"
    "\<forall>x. oc \<noteq> Called (CallbackResult x)"
    using handleMongoWriteConcernError_Finished by blast
  show ?thesis using e h by (auto simp: resultHandler_def)
next
  case noWce: False
  show ?thesis
  proof (cases "\<exists>e. err = Some e \<and> has_message e")
    case True
    with noWce show ?thesis by (auto simp: resultHandler_def)
  next
    case False
    with noWce have "err = None \<or>
        (\<exists>e. err = Some e \<and> \<not> has_message e \<and> \<not> isMongoWriteConcernError e)"
      by (cases err) auto
    from resultHandler_ordinary [OF this] show ?thesis
      by (auto split: sum.splits option.splits prod.splits)
  qed
qed

text \<open>
  Claim C9. A call of \<^verbatim>\<open>mergeBatchResults\<close> that returns, returns \<^verbatim>\<open>undefined\<close>. So
  the result handler never takes the branch \<^verbatim>\<open>mergeResult != null\<close>: it never calls
  back with a plain result, and for an ordinary reply (no error, or an error that has
  no message and is no write concern error) what follows the merge is decided by the
  instance's \<^verbatim>\<open>handleWriteError\<close> alone: stop with its error, or send the next batch.
\<close>

theorem mergeBatchResults_returns_undefined:
  "(mergeBatchResults b br err res = Inr (v, br') \<longrightarrow> v = JSUndefined)
   \<and> resultHandler H queued b br herr res \<noteq> Finished (Called (CallbackResult x)) y
   \<and> (herr = None \<or>
        (\<exists>e. herr = Some e \<and> \<not> has_message e \<and> \<not> isMongoWriteConcernError e) \<longrightarrow>
      resultHandler H queued b br herr res =
        (case mergeBatchResults b br (map_option e_props herr) res of
           Inl t \<Rightarrow> Finished (Threw t) br
         | Inr (u, br1) \<Rightarrow>
             (case H queued br1 of
                Some e' \<Rightarrow> Finished (Called (CallbackError e')) br1
              | None \<Rightarrow> NextCommand br1)))"
  using mergeBatchResults_undefined [of b br err res v br']
    resultHandler_never_result [of H queued b br herr res x y]
    resultHandler_ordinary [of herr H queued b br res]
  by blast

theorem mergeBatchResults_returns_undefined_witness:
  "mergeBatchResults
     \<lparr> originalZeroIndex = 0, currentIndex = 2, originalIndexes = [0, 1], batchType = INSERT,
       operations = [JSNull, JSNull], batch_size = 2, sizeBytes = 40 \<rparr>
     initial_bulkResult None
     (Some (Document (no_fields\<lparr>r_ok := Some 1, r_n := Some 2\<rparr>) None))
     = Inr (JSUndefined, initial_bulkResult\<lparr>nInserted := 2\<rparr>) \<and>
   resultHandler base_handleWriteError []
     \<lparr> originalZeroIndex = 0, currentIndex = 2, originalIndexes = [0, 1], batchType = INSERT,
       operations = [JSNull, JSNull], batch_size = 2, sizeBytes = 40 \<rparr>
     initial_bulkResult None
     (Some (Document (no_fields\<lparr>r_ok := Some 1, r_n := Some 2\<rparr>) None))
     = NextCommand (initial_bulkResult\<lparr>nInserted := 2\<rparr>)"
proof -
  let ?b = "\<lparr> originalZeroIndex = 0, currentIndex = 2, originalIndexes = [0, 1],
     batchType = INSERT, operations = [JSNull, JSNull], batch_size = 2, sizeBytes = 40 \<rparr>"
  let ?d = "Document (no_fields\<lparr>r_ok := Some 1, r_n := Some 2\<rparr>) None"
  obtain v where m: "mergeBatchResults ?b initial_bulkResult None (Some ?d)
      = Inr (v, initial_bulkResult\<lparr>nInserted := 2\<rparr>)"
    by (simp add: mergeBatchResults_def effective_result_def no_fields_def
        initial_bulkResult_def mergeOpTime_def mergeInserted_def mergeRemoved_def
        mergeUpserted_def mergeUpdated_def mergeWriteErrors_def mergeWriteConcernError_def
        isInsertBatch_def isDeleteBatch_def isUpdateBatch_def truthy_number_def
        upsertedCount_def)
  have hw: "base_handleWriteError [] (initial_bulkResult\<lparr>nInserted := 2\<rparr>) = None"
    by (simp add: base_handleWriteError_def handleWriteError_def getWriteConcernError_def
        initial_bulkResult_def)
  note c9 = mergeBatchResults_returns_undefined
    [of ?b initial_bulkResult None "Some ?d" v "initial_bulkResult\<lparr>nInserted := 2\<rparr>"
       base_handleWriteError "[]" None]
  have v: "v = JSUndefined" using c9 m by blast
  have "resultHandler base_handleWriteError [] ?b initial_bulkResult None (Some ?d) =
      (case mergeBatchResults ?b initial_bulkResult (map_option e_props None) (Some ?d) of
         Inl t \<Rightarrow> Finished (Threw t) initial_bulkResult
       | Inr (u, br1) \<Rightarrow>
           (case base_handleWriteError [] br1 of
              Some e' \<Rightarrow> Finished (Called (CallbackError e')) br1
            | None \<Rightarrow> NextCommand br1))"
    using c9 by blast
  then have "resultHandler base_handleWriteError [] ?b initial_bulkResult None (Some ?d)
      = NextCommand (initial_bulkResult\<lparr>nInserted := 2\<rparr>)"
    using m hw by simp
  then show ?thesis using m v by simp
qed

lemma getWriteConcernError_nonempty:
  "writeConcernErrors br \<noteq> [] \<Longrightarrow> getWriteConcernError br \<noteq> None"
  by (auto simp: getWriteConcernError_def split: list.splits)

lemma handleWriteError_writeConcernError:
  "writeConcernErrors br \<noteq> [] \<Longrightarrow> handleWriteError br \<noteq> None"
  using getWriteConcernError_nonempty [of br]
  by (auto simp: handleWriteError_def Let_def split: list.splits option.splits)

text \<open>
  An ordinary response that carries a \<^verbatim>\<open>writeConcernError\<close>, on an instance that keeps
  the base-class \<^verbatim>\<open>handleWriteError\<close>: the error is appended and the run ends.
\<close>

lemma resultHandler_response_writeConcernError:
  assumes "effective_result None res = Some r" and "r_ok r \<noteq> Some 0"
    and "r_writeConcernError r = Some w"
    and "mergeBatchResults b br None res = Inr (v, br1)"
  shows "writeConcernErrors br1 = writeConcernErrors br @ [WriteConcernError w] \<and>
         (\<exists>c. resultHandler base_handleWriteError queued b br None res =
                 Finished (Called (CallbackError c)) br1)"
proof -
  have wc: "writeConcernErrors br1 = writeConcernErrors br @ [WriteConcernError w]"
    using assms mergeBatchResults_fields [OF assms(1,2), of b br]
    by (auto simp: mergeWriteConcernError_def split: sum.splits)
  then have "writeConcernErrors br1 \<noteq> []" by simp
  then obtain c where "base_handleWriteError queued br1 = Some c"
    using handleWriteError_writeConcernError [of br1] by (auto simp: base_handleWriteError_def)
  then have "resultHandler base_handleWriteError queued b br None res =
      Finished (Called (CallbackError c)) br1"
    using assms(4) resultHandler_ordinary [of None base_handleWriteError queued b br res]
    by simp
  then show ?thesis using wc by blast
qed

subsection \<open>Write concern failures\<close>




subsection \<open>Running a bulk operation twice\<close>

text \<open>
  Claim C8. On a bulk operation whose \<^verbatim>\<open>executed\<close> flag is set, \<^verbatim>\<open>execute\<close> fails with
  the re-execution error, sends no batch and leaves the state as it is. The flag never
  goes back: set before the call, it is set after it; a call that sends a batch starts
  with the flag clear and ends with it set; and whatever a first call did, once the flag
  is set the next call on that state is refused.
\<close>

theorem execute_reexecution:
  "(executed bo \<longrightarrow>
      execute H T bo =
        \<lparr> returned = EarlyError MongoBatchReExecutionError, state = bo, sent = [] \<rparr>)
   \<and> (executed bo \<longrightarrow> executed (state (execute H T bo)))
   \<and> (sent (execute H T bo) \<noteq> [] \<longrightarrow>
        \<not> executed bo \<and> executed (state (execute H T bo)))
   \<and> (executed (state (execute H T bo)) \<longrightarrow>
        execute H' T' (state (execute H T bo)) =
          \<lparr> returned = EarlyError MongoBatchReExecutionError, state = state (execute H T bo),
            sent = [] \<rparr>)"
  by (auto simp: execute_def Let_def)

theorem execute_reexecution_witness:
  "sent (execute base_handleWriteError (\<lambda>ord hist b. Calls None
            (Some (Document (no_fields\<lparr>r_ok := Some 1, r_n := Some 1\<rparr>) None)))
      ((new_BulkOperationBase True)\<lparr>currentBatch := Some
          \<lparr> originalZeroIndex = 0, currentIndex = 1, originalIndexes = [0],
            batchType = INSERT, operations = [JSNull], batch_size = 1, sizeBytes = 20 \<rparr>\<rparr>))
     = [\<lparr> originalZeroIndex = 0, currentIndex = 1, originalIndexes = [0],
            batchType = INSERT, operations = [JSNull], batch_size = 1, sizeBytes = 20 \<rparr>] \<and>
   returned (execute base_handleWriteError (\<lambda>ord hist b. Calls None None)
      (state (execute base_handleWriteError (\<lambda>ord hist b. Calls None
            (Some (Document (no_fields\<lparr>r_ok := Some 1, r_n := Some 1\<rparr>) None)))
        ((new_BulkOperationBase True)\<lparr>currentBatch := Some
          \<lparr> originalZeroIndex = 0, currentIndex = 1, originalIndexes = [0],
            batchType = INSERT, operations = [JSNull], batch_size = 1, sizeBytes = 20 \<rparr>\<rparr>))))
     = EarlyError MongoBatchReExecutionError \<and>
   sent (execute base_handleWriteError (\<lambda>ord hist b. Calls None None)
      (state (execute base_handleWriteError (\<lambda>ord hist b. Calls None
            (Some (Document (no_fields\<lparr>r_ok := Some 1, r_n := Some 1\<rparr>) None)))
        ((new_BulkOperationBase True)\<lparr>currentBatch := Some
          \<lparr> originalZeroIndex = 0, currentIndex = 1, originalIndexes = [0],
            batchType = INSERT, operations = [JSNull], batch_size = 1, sizeBytes = 20 \<rparr>\<rparr>))))
     = []"
proof -
  let ?b0 = "\<lparr> originalZeroIndex = 0, currentIndex = 1, originalIndexes = [0],
     batchType = INSERT, operations = [JSNull], batch_size = 1, sizeBytes = 20 \<rparr>"
  let ?T = "\<lambda>(ord :: bool) (hist :: batch list) (b :: batch). Calls None
     (Some (Document (no_fields\<lparr>r_ok := Some 1, r_n := Some 1\<rparr>) None))"
  let ?T' = "\<lambda>(ord :: bool) (hist :: batch list) (b :: batch). Calls None None"
  let ?bo = "(new_BulkOperationBase True)\<lparr>currentBatch := Some ?b0\<rparr>"
  have h: "resultHandler base_handleWriteError [] ?b0 initial_bulkResult None
      (Some (Document (no_fields\<lparr>r_ok := Some 1, r_n := Some 1\<rparr>) None))
      = NextCommand (initial_bulkResult\<lparr>nInserted := 1\<rparr>)"
    by (simp add: resultHandler_def base_handleWriteError_def handleWriteError_def
        getWriteConcernError_def
        mergeBatchResults_def effective_result_def no_fields_def
        initial_bulkResult_def mergeOpTime_def mergeInserted_def mergeRemoved_def
        mergeUpserted_def mergeUpdated_def mergeWriteErrors_def mergeWriteConcernError_def
        isInsertBatch_def isDeleteBatch_def isUpdateBatch_def truthy_number_def
        upsertedCount_def)
  have run: "sent (execute base_handleWriteError ?T ?bo) = [?b0]"
    using h by (simp add: execute_def new_BulkOperationBase_def Let_def)
  then have ne: "sent (execute base_handleWriteError ?T ?bo) \<noteq> []" by simp
  note c8 = execute_reexecution [of ?bo base_handleWriteError ?T base_handleWriteError ?T']
  from c8 ne have ex: "executed (state (execute base_handleWriteError ?T ?bo))" by blast
  with c8 have "execute base_handleWriteError ?T' (state (execute base_handleWriteError ?T ?bo)) =
      \<lparr> returned = EarlyError MongoBatchReExecutionError, state = state (execute base_handleWriteError ?T ?bo),
        sent = [] \<rparr>"
    by blast
  then show ?thesis using run by simp
qed

section \<open>Properties of decompression\<close>

text \<open>
  Claim C10. With compressor id 0 (none), \<^verbatim>\<open>decompress\<close> calls the callback with the
  input buffer as it is; with an id below 0 or above 2 it throws the decompression
  error and makes no callback call.
\<close>

theorem decompress_none_identity:
  "decompress Snappy inflate 0 buf = CallsBack (CodecData buf) \<and>
   (cid < 0 \<or> 2 < cid \<longrightarrow> decompress Snappy inflate cid buf = MongoDecompressionError cid)"
  by (simp add: decompress_def Compressor_snappy_def Compressor_zlib_def)

theorem decompress_none_identity_witness:
  "decompress (SnappyModuleError ''snappy is not installed'') (\<lambda>d. CodecError ''inflate'')
     0 [1, 2, 3] = CallsBack (CodecData [1, 2, 3]) \<and>
   ((3::int) < 0 \<or> (2::int) < 3) \<and>
   decompress (SnappyModuleError ''snappy is not installed'') (\<lambda>d. CodecError ''inflate'')
     3 [1, 2, 3] = MongoDecompressionError 3"
  using decompress_none_identity [of "SnappyModuleError ''snappy is not installed''"
      "\<lambda>d. CodecError ''inflate''" "[1, 2, 3]" 3]
  by simp

end
